theory Spec2Isabelle
  imports Main "HOL-Library.Sublist"
begin

section \<open>Values\<close>

text \<open>
  The values that travel through the two functions are decoded JSON scalars and
  Firestore field values: \<open>None\<close>, booleans, integers and strings. Arrays, objects and
  floating-point numbers are outside the model.
\<close>

datatype pyval = PNone | PBool bool | PInt int | PStr string

text \<open>Python truth value testing, as \<open>if x:\<close>, \<open>not x\<close> and \<open>all([...])\<close> use it.\<close>

fun truthy :: "pyval \<Rightarrow> bool" where
  "truthy PNone = False"
| "truthy (PBool b) = b"
| "truthy (PInt i) = (i \<noteq> 0)"
| "truthy (PStr s) = (s \<noteq> [])"

text \<open>Decimal formatting of integers, as an f-string does it.\<close>

definition digit_char :: "nat \<Rightarrow> char" where
  "digit_char d = ''0123456789'' ! d"

fun str_nat :: "nat \<Rightarrow> string" where
  "str_nat n = (if n < 10 then [digit_char n] else str_nat (n div 10) @ [digit_char (n mod 10)])"

declare str_nat.simps [simp del]

definition str_int :: "int \<Rightarrow> string" where
  "str_int i = (if i < 0 then ''-'' @ str_nat (nat (- i)) else str_nat (nat i))"

text \<open>\<open>str(v)\<close>, the conversion an f-string placeholder \<open>{v}\<close> applies.\<close>

fun py_str :: "pyval \<Rightarrow> string" where
  "py_str PNone = ''None''"
| "py_str (PBool b) = (if b then ''True'' else ''False'')"
| "py_str (PInt i) = str_int i"
| "py_str (PStr s) = s"

text \<open>\<open>d.get(k)\<close> on a dictionary: \<open>None\<close> for a missing key.\<close>

definition dict_get :: "(string \<rightharpoonup> pyval) \<Rightarrow> string \<Rightarrow> pyval" where
  "dict_get d k = (case d k of None \<Rightarrow> PNone | Some v \<Rightarrow> v)"

text \<open>\<open>s.endswith(suf)\<close>.\<close>

definition endswith :: "string \<Rightarrow> string \<Rightarrow> bool" where
  "endswith s suf = (length suf \<le> length s \<and> drop (length s - length suf) s = suf)"

section \<open>The document store, the topic and the environment\<close>

text \<open>
  A Firestore document is an identifier and a dictionary of fields. The world the
  Reservation Service acts on is the \<open>reservations\<close> collection and the messages published
  to the Pub/Sub topic, each message being the JSON object that \<open>json.dumps\<close> serialises
  (the byte encoding on the wire is not modelled).
\<close>

record document =
  doc_id :: string
  doc_fields :: "string \<rightharpoonup> pyval"

record world =
  reservations :: "document list"
  topic :: "(string \<rightharpoonup> pyval) list"

text \<open>
  What one invocation gets from outside: whether the store query, the document write and
  the publish raise, the identifier \<open>document()\<close> generates, the clock, and the message
  identifier the publish future resolves to.
\<close>

record env =
  query_raises :: bool
  auto_id :: string
  now_iso :: string
  set_raises :: bool
  publish_raises :: bool
  message_id :: string

datatype exn =
    QueryError | KeyError | BadRequest | WriteError | PublishError
  | DecodeError | BlobError | RefreshError | MailError
  | AttributeError | HeaderParseError | BuildError

section \<open>Reservation Service\<close>

subsection \<open>\<open>publish_email\<close>\<close>

definition publish_email ::
  "env \<Rightarrow> world \<Rightarrow> pyval \<Rightarrow> pyval \<Rightarrow> pyval \<Rightarrow> (exn + string) \<times> world" where
  "publish_email e w to subject message =
     (let data = [''to'' \<mapsto> to, ''subject'' \<mapsto> subject, ''message'' \<mapsto> message]
      in if publish_raises e then (Inl PublishError, w)
         else (Inr (message_id e), w\<lparr>topic := topic w @ [data]\<rparr>))"

subsection \<open>\<open>get_available_spots\<close>\<close>

definition zone_limits :: "pyval \<rightharpoonup> nat" where
  "zone_limits = [PStr ''A'' \<mapsto> 55, PStr ''B'' \<mapsto> 52, PStr ''C'' \<mapsto> 45]"

text \<open>The query \<open>collection('reservations').where(zone == ..).where(date == ..).stream()\<close>.\<close>

definition query_reservations ::
  "env \<Rightarrow> world \<Rightarrow> pyval \<Rightarrow> pyval \<Rightarrow> exn + document list" where
  "query_reservations e w zone date =
     (if query_raises e then Inl QueryError
      else Inr (filter (\<lambda>r. doc_fields r ''zone'' = Some zone \<and> doc_fields r ''date'' = Some date)
                  (reservations w)))"

text \<open>The loop that adds the \<open>spot\<close> field of each streamed reservation to \<open>used_spots\<close>.\<close>

fun collect_used_spots :: "document list \<Rightarrow> pyval set \<Rightarrow> pyval set" where
  "collect_used_spots [] used_spots = used_spots"
| "collect_used_spots (reservation # rest) used_spots =
     collect_used_spots rest
       (case doc_fields reservation ''spot'' of
          None \<Rightarrow> used_spots
        | Some spot \<Rightarrow> insert spot used_spots)"

text \<open>The comprehension \<open>[f"{zone}{i}" for i in range(1, limit + 1)]\<close>.\<close>

definition all_spots :: "pyval \<Rightarrow> nat \<Rightarrow> string list" where
  "all_spots zone limit = map (\<lambda>i. py_str zone @ str_nat i) [1..<limit + 1]"

text \<open>
  Every exception raised inside the \<open>try\<close> block (the query failing, the \<open>KeyError\<close> of
  \<open>zone_limits[zone]\<close>) ends in \<open>return []\<close>.
\<close>

definition get_available_spots :: "env \<Rightarrow> world \<Rightarrow> pyval \<Rightarrow> pyval \<Rightarrow> string list" where
  "get_available_spots e w zone date =
     (case query_reservations e w zone date of
        Inl _ \<Rightarrow> []
      | Inr reservations_ref \<Rightarrow>
          (let used_spots = collect_used_spots reservations_ref {}
           in case zone_limits zone of
                None \<Rightarrow> []
              | Some limit \<Rightarrow>
                  filter (\<lambda>spot. PStr spot \<notin> used_spots) (all_spots zone limit)))"

subsection \<open>\<open>reserve\<close>\<close>

record request =
  req_method :: string
  req_path :: string
  req_args :: "string \<rightharpoonup> string"
  req_json :: "(string \<rightharpoonup> pyval) option"

datatype body =
    Plain string
  | ErrorBody string
  | ExnBody exn
  | SpotsBody "string list" string string
  | SuccessBody pyval string

type_synonym response = "body \<times> nat \<times> (string \<times> string) list"

definition headers :: "(string \<times> string) list" where
  "headers =
     [(''Access-Control-Allow-Origin'', ''*''),
      (''Access-Control-Allow-Methods'', ''POST, GET, OPTIONS''),
      (''Access-Control-Allow-Headers'', ''Content-Type'')]"

text \<open>\<open>doc_ref.set(data)\<close>: the document with this identifier is created or replaced.\<close>

definition doc_set :: "document list \<Rightarrow> string \<Rightarrow> (string \<rightharpoonup> pyval) \<Rightarrow> document list" where
  "doc_set ds i fs = filter (\<lambda>d. doc_id d \<noteq> i) ds @ [\<lparr>doc_id = i, doc_fields = fs\<rparr>]"

definition reservation_data :: "env \<Rightarrow> pyval \<Rightarrow> pyval \<Rightarrow> pyval \<Rightarrow> pyval \<Rightarrow> (string \<rightharpoonup> pyval)" where
  "reservation_data e zone spot date email =
     [''zone'' \<mapsto> zone, ''spot'' \<mapsto> spot, ''date'' \<mapsto> date, ''email'' \<mapsto> email,
      ''created_at'' \<mapsto> PStr (now_iso e), ''status'' \<mapsto> PStr ''confirmed'']"

definition confirmation_message :: "pyval \<Rightarrow> pyval \<Rightarrow> pyval \<Rightarrow> string \<Rightarrow> string" where
  "confirmation_message zone spot date rid =
     ''Dear Customer,\<newline>\<newline>'' @
     ''Your parking reservation has been confirmed:\<newline>'' @
     ''- Zone: '' @ py_str zone @ ''\<newline>'' @
     ''- Spot Number: '' @ py_str spot @ ''\<newline>'' @
     ''- Date: '' @ py_str date @ ''\<newline>'' @
     ''- Reservation ID: '' @ rid @ ''\<newline>\<newline>'' @
     ''Best regards,\<newline>'' @
     ''The ParkingApp Team''"

text \<open>
  Lines 156 to 192 of the handler: write the reservation, publish the confirmation,
  answer 200. An exception of the write or of the publish reaches the handler's
  \<open>except Exception\<close>, which answers 500.
\<close>

definition save_and_notify ::
  "env \<Rightarrow> world \<Rightarrow> pyval \<Rightarrow> pyval \<Rightarrow> pyval \<Rightarrow> pyval \<Rightarrow> response \<times> world" where
  "save_and_notify e w zone spot date email =
     (if set_raises e then ((ExnBody WriteError, 500, headers), w)
      else
        (let w1 = w\<lparr>reservations :=
                    doc_set (reservations w) (auto_id e) (reservation_data e zone spot date email)\<rparr>
         in case publish_email e w1 email (PStr ''Parking Reservation Confirmation'')
                   (PStr (confirmation_message zone spot date (auto_id e))) of
              (Inl x, w2) \<Rightarrow> ((ExnBody x, 500, headers), w2)
            | (Inr _, w2) \<Rightarrow> ((SuccessBody spot (auto_id e), 200, headers), w2)))"

text \<open>The \<open>POST\<close> branch. A body that is not a JSON object raises inside the \<open>try\<close>.\<close>

definition reserve_post :: "env \<Rightarrow> world \<Rightarrow> request \<Rightarrow> response \<times> world" where
  "reserve_post e w r =
     (case req_json r of
        None \<Rightarrow> ((ExnBody BadRequest, 500, headers), w)
      | Some request_data \<Rightarrow>
          (let zone = dict_get request_data ''zone'';
               date = dict_get request_data ''date'';
               email = dict_get request_data ''email'';
               spot = dict_get request_data ''spot''
           in if \<not> (truthy zone \<and> truthy date \<and> truthy email)
              then ((ErrorBody ''Missing required fields'', 400, headers), w)
              else if zone \<notin> set [PStr ''A'', PStr ''B'', PStr ''C'']
              then ((ErrorBody ''Invalid zone'', 400, headers), w)
              else
                (let available_spots = get_available_spots e w zone date
                 in if truthy spot
                    then (if spot \<notin> set (map PStr available_spots)
                          then ((ErrorBody ''Selected spot is no longer available'', 400, headers), w)
                          else save_and_notify e w zone spot date email)
                    else (case available_spots of
                            [] \<Rightarrow> ((ErrorBody ''No available spots in this zone for selected date'',
                                    400, headers), w)
                          | first # _ \<Rightarrow> save_and_notify e w zone (PStr first) date email))))"

text \<open>
  The handler. In the \<open>GET\<close> branch \<open>get_available_spots\<close> raises nothing, so the
  branch's own \<open>except\<close> is never taken.
\<close>

definition reserve :: "env \<Rightarrow> world \<Rightarrow> request \<Rightarrow> response \<times> world" where
  "reserve e w r =
     (if req_method r = ''OPTIONS'' then ((Plain '''', 204, headers), w)
      else if req_method r = ''GET'' \<and> endswith (req_path r) ''/available-spots''
      then (case (req_args r ''zone'', req_args r ''date'') of
              (Some zone, Some date) \<Rightarrow>
                (if zone = [] \<or> date = []
                 then ((ErrorBody ''Missing zone or date parameter'', 400, headers), w)
                 else ((SpotsBody (get_available_spots e w (PStr zone) (PStr date)) zone date,
                        200, headers), w))
            | _ \<Rightarrow> ((ErrorBody ''Missing zone or date parameter'', 400, headers), w))
      else if req_method r = ''POST'' then reserve_post e w r
      else ((ErrorBody ''Method not allowed'', 405, headers), w))"

section \<open>Notification Dispatcher\<close>

text \<open>
  The unpickled credential object, with the two attributes the dispatcher reads. The
  pickle may hold \<open>None\<close>; the refresh token may be \<open>None\<close> or empty.
\<close>

record credentials =
  expired :: bool
  refresh_token :: "string option"
  access_token :: string

text \<open>
  The mail as \<open>as_bytes\<close> renders it: the three headers the dispatcher sets and the text.
\<close>

record mime =
  mime_to :: string
  mime_from :: string
  mime_subject :: string
  mime_text :: string

text \<open>
  The dispatcher's collaborators: the blob download with the unpickling, the refresh
  round-trip, the construction of the mail API client (\<open>build\<close>, line 45), the call
  \<open>send(...).execute()\<close> on that client, and the verdict of the email library on a header
  string that has control or non-ASCII characters (see \<open>render_header\<close>).
\<close>

record mail_env =
  download_creds :: "exn + credentials option"
  refresh :: "credentials \<Rightarrow> exn + credentials"
  build_service :: "credentials option \<Rightarrow> exn option"
  mail_send :: "credentials option \<Rightarrow> mime \<Rightarrow> exn + string"
  header_accepted :: "string \<Rightarrow> bool"

text \<open>A delivered queue message: either it decodes to a JSON object or it does not.\<close>

datatype cloud_event = Undecodable | Message "string \<rightharpoonup> pyval"

text \<open>The calls the dispatcher makes to its collaborators, in order.\<close>

datatype action =
    Download
  | Refresh credentials
  | Build "credentials option"
  | Execute "credentials option" mime

text \<open>\<open>email_data[k]\<close>: a missing key raises.\<close>

definition subscript :: "(string \<rightharpoonup> pyval) \<Rightarrow> string \<Rightarrow> exn + pyval" where
  "subscript d k = (case d k of None \<Rightarrow> Inl KeyError | Some v \<Rightarrow> Inr v)"

text \<open>Lines 22 to 24: the three fields of the message.\<close>

definition extract_fields :: "(string \<rightharpoonup> pyval) \<Rightarrow> exn + (pyval \<times> pyval \<times> pyval)" where
  "extract_fields email_data =
     (case subscript email_data ''to'' of
        Inl x \<Rightarrow> Inl x
      | Inr to \<Rightarrow>
          (case subscript email_data ''subject'' of
             Inl x \<Rightarrow> Inl x
           | Inr subject \<Rightarrow>
               (case subscript email_data ''message'' of
                  Inl x \<Rightarrow> Inl x
                | Inr message \<Rightarrow> Inr (to, subject, message))))"

text \<open>\<open>creds and creds.expired and creds.refresh_token\<close>.\<close>

definition needs_refresh :: "credentials option \<Rightarrow> bool" where
  "needs_refresh creds =
     (case creds of
        None \<Rightarrow> False
      | Some c \<Rightarrow> expired c \<and> (case refresh_token c of None \<Rightarrow> False | Some t \<Rightarrow> t \<noteq> []))"

text \<open>
  Lines 35 and 36: the refresh, when the test holds. The result is the refresh call made,
  if any, and the credential the dispatcher goes on with, or the exception of the refresh.
\<close>

definition refresh_if_expired ::
  "mail_env \<Rightarrow> credentials option \<Rightarrow> action list \<times> (exn + credentials option)" where
  "refresh_if_expired m creds =
     (case creds of
        None \<Rightarrow> ([], Inr None)
      | Some c \<Rightarrow>
          (if needs_refresh creds
           then (case refresh m c of
                   Inl x \<Rightarrow> ([Refresh c], Inl x)
                 | Inr c' \<Rightarrow> ([Refresh c], Inr (Some c')))
           else ([], Inr creds)))"

text \<open>
  \<open>MIMEText(message)\<close>, line 39: the constructor calls \<open>message.encode\<close>, which only a
  string has. Every string of the model is accepted as the text.
\<close>

definition mime_text_of :: "pyval \<Rightarrow> exn + string" where
  "mime_text_of message =
     (case message of
        PStr text \<Rightarrow> Inr text
      | PNone \<Rightarrow> Inl AttributeError
      | PBool _ \<Rightarrow> Inl AttributeError
      | PInt _ \<Rightarrow> Inl AttributeError)"

definition printable :: "string \<Rightarrow> bool" where
  "printable s = list_all (\<lambda>c. 32 \<le> (of_char c :: nat) \<and> (of_char c :: nat) \<le> 126) s"

text \<open>
  A header value, as \<open>as_bytes\<close> renders it (line 48; the assignments of lines 40 to 42 store
  the value as it is and raise nothing). \<open>None\<close> gives an empty header; a boolean or an
  integer has no \<open>encode\<close> and raises; a string of printable ASCII characters is written as it
  is; for any other string the email library decides (it folds and encodes the value and
  raises on an embedded header), and its verdict is taken from the environment.
\<close>

definition render_header :: "mail_env \<Rightarrow> pyval \<Rightarrow> exn + string" where
  "render_header m v =
     (case v of
        PNone \<Rightarrow> Inr []
      | PBool _ \<Rightarrow> Inl AttributeError
      | PInt _ \<Rightarrow> Inl AttributeError
      | PStr s \<Rightarrow> if printable s \<or> header_accepted m s then Inr s else Inl HeaderParseError)"

text \<open>
  \<open>mime_message.as_bytes()\<close>: the headers are written in the order they were set, \<open>to\<close>,
  \<open>from\<close> (the fixed sender, printable), \<open>subject\<close>; the first that fails raises.
\<close>

definition as_bytes :: "mail_env \<Rightarrow> pyval \<Rightarrow> pyval \<Rightarrow> string \<Rightarrow> exn + mime" where
  "as_bytes m to subject text =
     (case render_header m to of
        Inl x \<Rightarrow> Inl x
      | Inr t \<Rightarrow>
          (case render_header m subject of
             Inl x \<Rightarrow> Inl x
           | Inr s \<Rightarrow>
               Inr \<lparr>mime_to = t, mime_from = ''parkingbotapp@gmail.com'',
                    mime_subject = s, mime_text = text\<rparr>))"

text \<open>
  The dispatcher: the calls it made and how it ended, \<open>Inl\<close> being the exception it
  re-raises and \<open>Inr\<close> the identifier of the sent message. The order is that of the source:
  the fields (lines 22 to 24), the download (27 to 32), the refresh (35, 36), the text
  (39), the client (45), the rendering of the mail as the argument of \<open>send\<close> (48), and the
  call itself (46 to 49).
\<close>

definition send_email :: "mail_env \<Rightarrow> cloud_event \<Rightarrow> action list \<times> (exn + string)" where
  "send_email m ev =
     (case ev of
        Undecodable \<Rightarrow> ([], Inl DecodeError)
      | Message email_data \<Rightarrow>
          (case extract_fields email_data of
             Inl x \<Rightarrow> ([], Inl x)
           | Inr (to, subject, message) \<Rightarrow>
               (case download_creds m of
                  Inl x \<Rightarrow> ([Download], Inl x)
                | Inr fetched \<Rightarrow>
                    (case refresh_if_expired m fetched of
                       (calls, Inl x) \<Rightarrow> (Download # calls, Inl x)
                     | (calls, Inr creds) \<Rightarrow>
                         (case mime_text_of message of
                            Inl x \<Rightarrow> (Download # calls, Inl x)
                          | Inr text \<Rightarrow>
                              (case build_service m creds of
                                 Some x \<Rightarrow> (Download # calls @ [Build creds], Inl x)
                               | None \<Rightarrow>
                                   (case as_bytes m to subject text of
                                      Inl x \<Rightarrow> (Download # calls @ [Build creds], Inl x)
                                    | Inr raw \<Rightarrow>
                                        (Download # calls @ [Build creds, Execute creds raw],
                                         mail_send m creds raw))))))))"

section \<open>Reference definitions and example inputs\<close>

text \<open>
  The specification's wording of the occupied set: the spot identifiers on the reservations
  stored for a zone and a date whose status is \<open>confirmed\<close>. Claim C1 is compared with
  it; \<open>get_available_spots\<close> itself reads no status.
\<close>

definition spec_confirmed_spots :: "world \<Rightarrow> pyval \<Rightarrow> pyval \<Rightarrow> pyval set" where
  "spec_confirmed_spots w zone date =
     set (List.map_filter
            (\<lambda>r. if doc_fields r ''zone'' = Some zone \<and> doc_fields r ''date'' = Some date \<and>
                     doc_fields r ''status'' = Some (PStr ''confirmed'')
                  then doc_fields r ''spot'' else None)
            (reservations w))"

text \<open>
  Inputs for the instances below: an invocation in which nothing raises; a store with a
  cancelled reservation of A1 and a confirmed reservation of a spot beyond the capacity of
  zone A, a store whose only reservation is confirmed, and an empty store;
  reservation requests for zones A and D; a request for the available spots of zone D;
  credentials, a mail environment whose API client is built without error and refuses an
  expired credential, and three queue messages: a well-formed one, one without the field
  \<open>to\<close>, and one whose \<open>to\<close> is a boolean.
\<close>

definition example_env :: env where
  "example_env =
     \<lparr>query_raises = False, auto_id = ''k3Xw9pQz'', now_iso = ''2024-05-30T10:00:00'',
      set_raises = False, publish_raises = False, message_id = ''7''\<rparr>"

definition mixed_world :: world where
  "mixed_world =
     \<lparr>reservations =
        [\<lparr>doc_id = ''d1'',
          doc_fields = [''zone'' \<mapsto> PStr ''A'', ''spot'' \<mapsto> PStr ''A1'',
                        ''date'' \<mapsto> PStr ''2024-06-01'', ''email'' \<mapsto> PStr ''u@example.com'',
                        ''created_at'' \<mapsto> PStr ''2024-05-01T09:00:00'',
                        ''status'' \<mapsto> PStr ''cancelled'']\<rparr>,
         \<lparr>doc_id = ''d2'',
          doc_fields = [''zone'' \<mapsto> PStr ''A'', ''spot'' \<mapsto> PStr ''A56'',
                        ''date'' \<mapsto> PStr ''2024-06-01'', ''email'' \<mapsto> PStr ''v@example.com'',
                        ''created_at'' \<mapsto> PStr ''2024-05-02T09:00:00'',
                        ''status'' \<mapsto> PStr ''confirmed'']\<rparr>],
      topic = []\<rparr>"

definition booked_world :: world where
  "booked_world =
     \<lparr>reservations =
        [\<lparr>doc_id = ''d1'',
          doc_fields = [''zone'' \<mapsto> PStr ''A'', ''spot'' \<mapsto> PStr ''A1'',
                        ''date'' \<mapsto> PStr ''2024-06-01'', ''email'' \<mapsto> PStr ''v@example.com'',
                        ''created_at'' \<mapsto> PStr ''2024-05-01T09:00:00'',
                        ''status'' \<mapsto> PStr ''confirmed'']\<rparr>],
      topic = []\<rparr>"

definition empty_world :: world where
  "empty_world = \<lparr>reservations = [], topic = []\<rparr>"

definition post_request :: request where
  "post_request =
     \<lparr>req_method = ''POST'', req_path = ''/reserve'', req_args = Map.empty,
      req_json = Some [''zone'' \<mapsto> PStr ''A'', ''date'' \<mapsto> PStr ''2024-06-01'',
                       ''email'' \<mapsto> PStr ''u@example.com'']\<rparr>"

definition post_request_A1 :: request where
  "post_request_A1 =
     \<lparr>req_method = ''POST'', req_path = ''/reserve'', req_args = Map.empty,
      req_json = Some [''zone'' \<mapsto> PStr ''A'', ''date'' \<mapsto> PStr ''2024-06-01'',
                       ''email'' \<mapsto> PStr ''u@example.com'', ''spot'' \<mapsto> PStr ''A1'']\<rparr>"

definition post_request_D :: request where
  "post_request_D =
     \<lparr>req_method = ''POST'', req_path = ''/reserve'', req_args = Map.empty,
      req_json = Some [''zone'' \<mapsto> PStr ''D'', ''date'' \<mapsto> PStr ''2024-06-01'',
                       ''email'' \<mapsto> PStr ''u@example.com'']\<rparr>"

definition post_request_no_email :: request where
  "post_request_no_email =
     \<lparr>req_method = ''POST'', req_path = ''/reserve'', req_args = Map.empty,
      req_json = Some [''zone'' \<mapsto> PStr ''D'', ''date'' \<mapsto> PStr ''2024-06-01'']\<rparr>"

definition get_request :: request where
  "get_request =
     \<lparr>req_method = ''GET'', req_path = ''/reserve/available-spots'',
      req_args = [''zone'' \<mapsto> ''D'', ''date'' \<mapsto> ''2024-06-01''], req_json = None\<rparr>"

definition expired_creds :: credentials where
  "expired_creds = \<lparr>expired = True, refresh_token = None, access_token = ''ya29.old''\<rparr>"


definition fresh_creds :: credentials where
  "fresh_creds = \<lparr>expired = False, refresh_token = Some ''1//rt'', access_token = ''ya29.new''\<rparr>"

definition example_mail_env :: "credentials \<Rightarrow> mail_env" where
  "example_mail_env c =
     \<lparr>download_creds = Inr (Some c),
      refresh = (\<lambda>_. Inr fresh_creds),
      build_service = (\<lambda>_. None),
      mail_send = (\<lambda>creds _.
        case creds of
          None \<Rightarrow> Inl RefreshError
        | Some c' \<Rightarrow> if expired c' then Inl RefreshError else Inr ''18f2a''),
      header_accepted = (\<lambda>_. False)\<rparr>"

definition example_message :: "string \<rightharpoonup> pyval" where
  "example_message =
     [''to'' \<mapsto> PStr ''u@example.com'', ''subject'' \<mapsto> PStr ''Parking Reservation Confirmation'',
      ''message'' \<mapsto> PStr ''Dear Customer'']"



section \<open>Properties\<close>

subsection \<open>Spot identifiers\<close>

text \<open>
  Decimal formatting is injective, so the generated universe of a zone has no duplicates.
\<close>

lemma digit_char_inj: "d < 10 \<Longrightarrow> d' < 10 \<Longrightarrow> digit_char d = digit_char d' \<Longrightarrow> d = d'"
proof -
  assume a: "d < 10" "d' < 10" "digit_char d = digit_char d'"
  have "distinct ''0123456789''" by simp
  moreover have "d < length ''0123456789''" "d' < length ''0123456789''" using a by simp_all
  ultimately show ?thesis using a(3) unfolding digit_char_def
    by (simp only: nth_eq_iff_index_eq)
qed

lemma str_nat_nonempty: "str_nat n \<noteq> []"
  by (subst str_nat.simps) simp

lemma str_nat_inj: "str_nat a = str_nat b \<Longrightarrow> a = b"
proof (induction a arbitrary: b rule: str_nat.induct)
  case (1 n)
  show ?case
  proof (cases "n < 10")
    case True
    show ?thesis
    proof (cases "b < 10")
      case True
      with \<open>n < 10\<close> "1.prems" show ?thesis
        by (simp add: str_nat.simps [of n] str_nat.simps [of b] digit_char_inj)
    next
      case False
      with \<open>n < 10\<close> "1.prems" show ?thesis
        by (simp add: str_nat.simps [of n] str_nat.simps [of b] str_nat_nonempty str_nat_nonempty [THEN not_sym])
    qed
  next
    case False
    show ?thesis
    proof (cases "b < 10")
      case True
      with \<open>\<not> n < 10\<close> "1.prems" show ?thesis
        by (simp add: str_nat.simps [of n] str_nat.simps [of b] str_nat_nonempty str_nat_nonempty [THEN not_sym])
    next
      case bb: False
      from False bb "1.prems"
      have eq: "str_nat (n div 10) = str_nat (b div 10)" "digit_char (n mod 10) = digit_char (b mod 10)"
        by (simp_all add: str_nat.simps [of n] str_nat.simps [of b])
      from "1.IH" [OF False eq(1)] have "n div 10 = b div 10" .
      moreover from eq(2) have "n mod 10 = b mod 10" by (simp add: digit_char_inj)
      ultimately show ?thesis by (metis div_mult_mod_eq)
    qed
  qed
qed

lemma distinct_all_spots: "distinct (all_spots zone limit)"
  unfolding all_spots_def
  by (simp add: distinct_map inj_on_def str_nat_inj)

text \<open>
  The universe of zone A, written out.
\<close>

lemma A_spots: "all_spots (PStr ''A'') 55 =
  [''A1'', ''A2'', ''A3'', ''A4'', ''A5'', ''A6'', ''A7'', ''A8'', ''A9'',
  ''A10'', ''A11'', ''A12'', ''A13'', ''A14'', ''A15'', ''A16'', ''A17'',
  ''A18'', ''A19'', ''A20'', ''A21'', ''A22'', ''A23'', ''A24'', ''A25'',
  ''A26'', ''A27'', ''A28'', ''A29'', ''A30'', ''A31'', ''A32'', ''A33'',
  ''A34'', ''A35'', ''A36'', ''A37'', ''A38'', ''A39'', ''A40'', ''A41'',
  ''A42'', ''A43'', ''A44'', ''A45'', ''A46'', ''A47'', ''A48'', ''A49'',
  ''A50'', ''A51'', ''A52'', ''A53'', ''A54'', ''A55'']"
  by code_simp

lemma zone_limits_A: "zone_limits (PStr ''A'') = Some 55"
  by (simp add: zone_limits_def)

lemma zone_limits_cases:
  "zone \<in> {PStr ''A'', PStr ''B'', PStr ''C''} \<Longrightarrow> \<exists>c. zone_limits zone = Some c"
  by (auto simp: zone_limits_def)

subsection \<open>The availability lookup\<close>

text \<open>
  The loop collects exactly the \<open>spot\<close> fields of the streamed reservations; with a
  successful query and a known zone the result is the universe filtered by them. A failing
  query and an unknown zone both give the empty list.
\<close>

lemma collect_used_spots_eq:
  "collect_used_spots rs used = used \<union> {v. \<exists>r\<in>set rs. doc_fields r ''spot'' = Some v}"
  by (induction rs arbitrary: used) (auto split: option.splits)

lemma get_available_spots_ok:
  "\<not> query_raises e \<Longrightarrow> zone_limits zone = Some c \<Longrightarrow>
   get_available_spots e w zone date =
     filter (\<lambda>s. \<not> (\<exists>r\<in>set (reservations w). doc_fields r ''zone'' = Some zone \<and>
                   doc_fields r ''date'' = Some date \<and> doc_fields r ''spot'' = Some (PStr s)))
       (all_spots zone c)"
  by (auto simp: get_available_spots_def query_reservations_def collect_used_spots_eq intro!: filter_cong)

lemma available_query_raises: "query_raises e \<Longrightarrow> get_available_spots e w zone date = []"
  by (simp add: get_available_spots_def query_reservations_def)

lemma unknown_zone: "zone_limits zone = None \<Longrightarrow> get_available_spots e w zone date = []"
  by (simp add: get_available_spots_def split: sum.splits)

lemma available_empty_world:
  "\<not> query_raises e \<Longrightarrow>
   get_available_spots e empty_world (PStr ''A'') date = all_spots (PStr ''A'') 55"
  by (simp add: get_available_spots_ok [OF _ zone_limits_A] empty_world_def)

lemma A1_not_available_booked:
  "\<not> query_raises e \<Longrightarrow>
   ''A1'' \<notin> set (get_available_spots e booked_world (PStr ''A'') (PStr ''2024-06-01''))"
  by (simp add: get_available_spots_ok [OF _ zone_limits_A] booked_world_def)

text \<open>
  A store that holds a reservation for every spot of a zone leaves nothing available.
\<close>

lemma fully_booked:
  assumes "\<not> query_raises e" and "zone_limits zone = Some c"
  shows "get_available_spots e
           \<lparr>reservations =
              map (\<lambda>s. \<lparr>doc_id = s,
                         doc_fields = [''zone'' \<mapsto> zone, ''date'' \<mapsto> date, ''spot'' \<mapsto> PStr s]\<rparr>)
                (all_spots zone c),
            topic = []\<rparr> zone date = []"
  by (simp add: get_available_spots_ok [OF assms] filter_empty_conv)

text \<open>
  The first available spot has the lowest number: every lower-numbered spot of the universe
  is absent from the result.
\<close>

lemma upt_split_prefix:
  "[a..<b] = pre @ x # post \<Longrightarrow> pre = [a..<x]"
proof (induction pre arbitrary: a)
  case Nil
  then show ?case by (auto simp: upt_eq_Cons_conv)
next
  case (Cons p pre)
  from Cons.prems have a: "a = p" "[Suc p..<b] = pre @ x # post"
    by (auto simp: upt_eq_Cons_conv)
  from a(2) have "x \<in> set [Suc p..<b]" by simp
  then have "p < x" by simp
  moreover from Cons.IH [OF a(2)] have "pre = [Suc p..<x]" .
  ultimately show ?case using a(1) by (simp add: upt_conv_Cons)
qed

lemma first_available_lowest:
  assumes "get_available_spots e w zone date = first # rest"
  shows "\<exists>i\<ge>1. first = py_str zone @ str_nat i \<and>
           (\<forall>j. 1 \<le> j \<and> j < i \<longrightarrow> py_str zone @ str_nat j \<notin> set (get_available_spots e w zone date))"
proof -
  from assms have q: "\<not> query_raises e"
    by (auto simp: available_query_raises)
  from assms obtain c where c: "zone_limits zone = Some c"
    by (cases "zone_limits zone") (auto simp: unknown_zone)
  let ?f = "\<lambda>i. py_str zone @ str_nat i"
  let ?P = "\<lambda>s. \<not> (\<exists>r\<in>set (reservations w). doc_fields r ''zone'' = Some zone \<and>
                   doc_fields r ''date'' = Some date \<and> doc_fields r ''spot'' = Some (PStr s))"
  have eq: "get_available_spots e w zone date = map ?f (filter (?P \<circ> ?f) [1..<c + 1])"
    by (simp add: get_available_spots_ok [OF q c] all_spots_def filter_map)
  with assms obtain i ys where f: "filter (?P \<circ> ?f) [1..<c + 1] = i # ys" and fi: "first = ?f i"
    by auto
  from f obtain us vs where s: "[1..<c + 1] = us @ i # vs" and n: "\<forall>u\<in>set us. \<not> (?P \<circ> ?f) u"
    by (auto simp: filter_eq_Cons_iff)
  from s have us: "us = [1..<i]" by (rule upt_split_prefix)
  from s have "i \<in> set [1..<c + 1]" by simp
  then have i1: "1 \<le> i" by auto
  have "?f j \<notin> set (get_available_spots e w zone date)" if "1 \<le> j" "j < i" for j
  proof -
    from that us have "j \<in> set us" by simp
    with n have "\<not> ?P (?f j)" by auto
    then show ?thesis by (simp add: get_available_spots_ok [OF q c])
  qed
  with i1 fi show ?thesis by blast
qed

text \<open>
  Zone A on 2024-06-01, before and after a reservation of A1 is written.
\<close>

lemma A_first_call:
  assumes "\<forall>x\<in>set (reservations w).
             \<not> (doc_fields x ''zone'' = Some (PStr ''A'') \<and>
                doc_fields x ''date'' = Some (PStr ''2024-06-01''))"
    and "\<not> query_raises e"
  shows "get_available_spots e w (PStr ''A'') (PStr ''2024-06-01'') = all_spots (PStr ''A'') 55"
proof -
  have "filter (\<lambda>s. \<not> (\<exists>x\<in>set (reservations w). doc_fields x ''zone'' = Some (PStr ''A'') \<and>
                   doc_fields x ''date'' = Some (PStr ''2024-06-01'') \<and>
                   doc_fields x ''spot'' = Some (PStr s))) (all_spots (PStr ''A'') 55) =
        all_spots (PStr ''A'') 55"
    using assms(1) by (auto simp: filter_id_conv)
  then show ?thesis
    by (simp only: get_available_spots_ok [OF assms(2) zone_limits_A])
qed

lemma A_second_call:
  assumes "\<forall>x\<in>set (reservations w).
             \<not> (doc_fields x ''zone'' = Some (PStr ''A'') \<and>
                doc_fields x ''date'' = Some (PStr ''2024-06-01''))"
    and "\<not> query_raises e"
    and "reservations w' =
           doc_set (reservations w) i
             (reservation_data e' (PStr ''A'') (PStr ''A1'') (PStr ''2024-06-01'') email)"
  shows "get_available_spots e w' (PStr ''A'') (PStr ''2024-06-01'') = tl (all_spots (PStr ''A'') 55)"
proof -
  have "(\<exists>x\<in>set (reservations w'). doc_fields x ''zone'' = Some (PStr ''A'') \<and>
                   doc_fields x ''date'' = Some (PStr ''2024-06-01'') \<and>
                   doc_fields x ''spot'' = Some (PStr s)) = (s = ''A1'')" for s
    using assms(1) by (auto simp: assms(3) doc_set_def reservation_data_def)
  then have "get_available_spots e w' (PStr ''A'') (PStr ''2024-06-01'') =
      filter (\<lambda>s. s \<noteq> ''A1'') (all_spots (PStr ''A'') 55)"
    by (simp only: get_available_spots_ok [OF assms(2) zone_limits_A])
  also have "\<dots> = tl (all_spots (PStr ''A'') 55)"
    by (simp add: A_spots)
  finally show ?thesis .
qed

subsection \<open>Persisting and notifying\<close>

text \<open>
  The three outcomes of the write and the publish.
\<close>

lemma save_and_notify_write_error:
  "set_raises e \<Longrightarrow>
   save_and_notify e w zone spot date email = ((ExnBody WriteError, 500, headers), w)"
  by (simp add: save_and_notify_def)

lemma save_and_notify_publish_error:
  "\<not> set_raises e \<Longrightarrow> publish_raises e \<Longrightarrow>
   save_and_notify e w zone spot date email =
     ((ExnBody PublishError, 500, headers),
      w\<lparr>reservations :=
          doc_set (reservations w) (auto_id e) (reservation_data e zone spot date email)\<rparr>)"
  by (simp add: save_and_notify_def publish_email_def)

lemma save_and_notify_ok:
  "\<not> set_raises e \<Longrightarrow> \<not> publish_raises e \<Longrightarrow>
   save_and_notify e w zone spot date email =
     ((SuccessBody spot (auto_id e), 200, headers),
      w\<lparr>reservations :=
          doc_set (reservations w) (auto_id e) (reservation_data e zone spot date email),
        topic := topic w @
          [[''to'' \<mapsto> email, ''subject'' \<mapsto> PStr ''Parking Reservation Confirmation'',
            ''message'' \<mapsto> PStr (confirmation_message zone spot date (auto_id e))]]\<rparr>)"
  by (simp add: save_and_notify_def publish_email_def)

lemma save_and_notify_reservations:
  "\<not> set_raises e \<Longrightarrow>
   reservations (snd (save_and_notify e w zone spot date email)) =
     doc_set (reservations w) (auto_id e) (reservation_data e zone spot date email)"
  by (cases "publish_raises e") (simp_all add: save_and_notify_publish_error save_and_notify_ok)

text \<open>
  A request that passes validation reaches the availability check.
\<close>

lemma reserve_valid:
  assumes "req_method r = ''POST''" and "req_json r = Some d"
    and "dict_get d ''zone'' \<in> {PStr ''A'', PStr ''B'', PStr ''C''}"
    and "truthy (dict_get d ''date'')" and "truthy (dict_get d ''email'')"
  shows "reserve e w r =
     (if truthy (dict_get d ''spot'')
      then (if dict_get d ''spot'' \<notin>
                 PStr ` set (get_available_spots e w (dict_get d ''zone'') (dict_get d ''date''))
            then ((ErrorBody ''Selected spot is no longer available'', 400, headers), w)
            else save_and_notify e w (dict_get d ''zone'') (dict_get d ''spot'')
                   (dict_get d ''date'') (dict_get d ''email''))
      else (case get_available_spots e w (dict_get d ''zone'') (dict_get d ''date'') of
              [] \<Rightarrow> ((ErrorBody ''No available spots in this zone for selected date'',
                      400, headers), w)
            | first # _ \<Rightarrow> save_and_notify e w (dict_get d ''zone'') (PStr first)
                   (dict_get d ''date'') (dict_get d ''email'')))"
proof -
  from assms(3) have "truthy (dict_get d ''zone'')" by auto
  with assms show ?thesis
    by (simp add: reserve_def reserve_post_def Let_def)
qed

subsection \<open>The dispatcher's field extraction\<close>

text \<open>
  A message with the three keys passes the extraction, and the dispatcher goes on to fetch
  the credential; what follows the download is the refresh, the text, the client, the
  rendering and the call.
\<close>

lemma extract_fields_shape:
  assumes "dom data = {''to'', ''subject'', ''message''}"
  shows "\<exists>t s m. extract_fields data = Inr (t, s, m)"
proof -
  from assms have "''to'' \<in> dom data" "''subject'' \<in> dom data" "''message'' \<in> dom data"
    by simp_all
  then obtain t s m where "data ''to'' = Some t" "data ''subject'' = Some s" "data ''message'' = Some m"
    by blast
  then show ?thesis by (simp add: extract_fields_def subscript_def)
qed

lemma send_email_reaches_download:
  "extract_fields data = Inr (t, s, m) \<Longrightarrow> \<exists>rest. fst (send_email env (Message data)) = Download # rest"
  by (auto simp: send_email_def split: sum.splits option.splits prod.splits)


subsection \<open>C1: the available spots of a zone\<close>

text \<open>
  C1, as the code has it. For a zone among A, B, C with capacity \<open>c\<close> and any date, when the
  store query succeeds, \<open>get_available_spots\<close> returns a duplicate-free subsequence of the
  generated universe \<open>all_spots zone c\<close>, in generation order, and the universe spots it
  leaves out are exactly those that appear as the \<open>spot\<close> of a reservation stored for that
  zone and date, whatever the status of the reservation.
\<close>

theorem C1_available_spots:
  assumes "zone \<in> {PStr ''A'', PStr ''B'', PStr ''C''}" and "\<not> query_raises e"
  shows "\<exists>c. zone_limits zone = Some c \<and>
           distinct (get_available_spots e w zone date) \<and>
           subseq (get_available_spots e w zone date) (all_spots zone c) \<and>
           set (all_spots zone c) - set (get_available_spots e w zone date) =
             {s \<in> set (all_spots zone c).
                \<exists>r\<in>set (reservations w). doc_fields r ''zone'' = Some zone \<and>
                   doc_fields r ''date'' = Some date \<and> doc_fields r ''spot'' = Some (PStr s)}"
proof -
  from assms(1) obtain c where c: "zone_limits zone = Some c"
    using zone_limits_cases by blast
  note eq = get_available_spots_ok [OF assms(2) c, of w date]
  have "distinct (get_available_spots e w zone date)"
    by (simp add: eq distinct_all_spots)
  moreover have "subseq (get_available_spots e w zone date) (all_spots zone c)"
    by (simp add: eq)
  moreover have "set (all_spots zone c) - set (get_available_spots e w zone date) =
             {s \<in> set (all_spots zone c).
                \<exists>r\<in>set (reservations w). doc_fields r ''zone'' = Some zone \<and>
                   doc_fields r ''date'' = Some date \<and> doc_fields r ''spot'' = Some (PStr s)}"
    unfolding eq by auto
  ultimately show ?thesis using c by blast
qed

text \<open>
  An instance: zone A, nothing raising, over the store with the cancelled reservation.
\<close>

theorem C1_available_spots_witness:
  "PStr ''A'' \<in> {PStr ''A'', PStr ''B'', PStr ''C''} \<and> \<not> query_raises example_env \<and>
   (\<exists>c. zone_limits (PStr ''A'') = Some c \<and>
      distinct (get_available_spots example_env mixed_world (PStr ''A'') (PStr ''2024-06-01'')) \<and>
      subseq (get_available_spots example_env mixed_world (PStr ''A'') (PStr ''2024-06-01''))
        (all_spots (PStr ''A'') c) \<and>
      set (all_spots (PStr ''A'') c) -
        set (get_available_spots example_env mixed_world (PStr ''A'') (PStr ''2024-06-01'')) =
        {s \<in> set (all_spots (PStr ''A'') c).
           \<exists>r\<in>set (reservations mixed_world). doc_fields r ''zone'' = Some (PStr ''A'') \<and>
              doc_fields r ''date'' = Some (PStr ''2024-06-01'') \<and>
              doc_fields r ''spot'' = Some (PStr s)})"
proof -
  have h1: "PStr ''A'' \<in> {PStr ''A'', PStr ''B'', PStr ''C''}" by simp
  have h2: "\<not> query_raises example_env" by (simp add: example_env_def)
  from C1_available_spots [OF h1 h2] h1 h2 show ?thesis by blast
qed

text \<open>
  C1 as stated fails: over the store with a cancelled reservation of A1 and a confirmed
  reservation of A56, the complement of the result is A1 alone, while the spots on confirmed
  reservations are A56 alone.
\<close>

theorem C1_counterexample:
  "set (all_spots (PStr ''A'') 55) -
      set (get_available_spots example_env mixed_world (PStr ''A'') (PStr ''2024-06-01'')) =
     {''A1''} \<and>
   spec_confirmed_spots mixed_world (PStr ''A'') (PStr ''2024-06-01'') = {PStr ''A56''}"
proof -
  have q: "\<not> query_raises example_env" by (simp add: example_env_def)
  have "(\<exists>r\<in>set (reservations mixed_world). doc_fields r ''zone'' = Some (PStr ''A'') \<and>
            doc_fields r ''date'' = Some (PStr ''2024-06-01'') \<and>
            doc_fields r ''spot'' = Some (PStr s)) = (s = ''A1'' \<or> s = ''A56'')" for s
    by (auto simp: mixed_world_def)
  then have "get_available_spots example_env mixed_world (PStr ''A'') (PStr ''2024-06-01'') =
      filter (\<lambda>s. \<not> (s = ''A1'' \<or> s = ''A56'')) (all_spots (PStr ''A'') 55)"
    by (simp only: get_available_spots_ok [OF q zone_limits_A])
  also have "\<dots> = tl (all_spots (PStr ''A'') 55)"
    by (simp add: A_spots)
  finally have a: "get_available_spots example_env mixed_world (PStr ''A'') (PStr ''2024-06-01'') =
      tl (all_spots (PStr ''A'') 55)" .
  have "set xs - set (tl xs) = {hd xs}" if "distinct xs" "xs \<noteq> []" for xs :: "string list"
    using that by (cases xs) auto
  from this [OF distinct_all_spots, of "PStr ''A''" 55]
  have "set (all_spots (PStr ''A'') 55) - set (tl (all_spots (PStr ''A'') 55)) = {''A1''}"
    by (simp add: A_spots)
  then have "set (all_spots (PStr ''A'') 55) -
      set (get_available_spots example_env mixed_world (PStr ''A'') (PStr ''2024-06-01'')) =
     {''A1''}"
    by (simp only: a)
  moreover have "spec_confirmed_spots mixed_world (PStr ''A'') (PStr ''2024-06-01'') = {PStr ''A56''}"
    by (simp add: spec_confirmed_spots_def mixed_world_def List.map_filter_simps)
  ultimately show ?thesis by (intro conjI)
qed

subsection \<open>C2: automatic assignment\<close>

text \<open>
  C2, as the code has it. For a POST request with a zone among A, B, C, a non-empty date and
  email and no spot requested: when the available list is empty the handler answers 400
  with the no-spots error and leaves the store and the topic as they were. When it is not
  empty, its first entry is the lowest-numbered available spot of the zone, and: the write
  raising, the answer is 500 and the world is as it was; the write succeeding, the store
  is the old one with the document of the generated identifier replaced by the new
  reservation, whose spot is that first entry and whose status is \<open>confirmed\<close>; then the
  publish raising, the answer is 500, and the publish succeeding, the answer is 200 with
  that spot and the generated identifier.
\<close>

theorem C2_auto_assign:
  assumes "req_method r = ''POST''" and "req_json r = Some d"
    and "dict_get d ''zone'' \<in> {PStr ''A'', PStr ''B'', PStr ''C''}"
    and "truthy (dict_get d ''date'')" and "truthy (dict_get d ''email'')"
    and "\<not> truthy (dict_get d ''spot'')"
  shows "(get_available_spots e w (dict_get d ''zone'') (dict_get d ''date'') = [] \<longrightarrow>
            reserve e w r =
              ((ErrorBody ''No available spots in this zone for selected date'', 400, headers), w)) \<and>
         (\<forall>first rest.
            get_available_spots e w (dict_get d ''zone'') (dict_get d ''date'') = first # rest \<longrightarrow>
              (\<exists>i\<ge>1. first = py_str (dict_get d ''zone'') @ str_nat i \<and>
                 (\<forall>j. 1 \<le> j \<and> j < i \<longrightarrow>
                    py_str (dict_get d ''zone'') @ str_nat j \<notin>
                      set (get_available_spots e w (dict_get d ''zone'') (dict_get d ''date'')))) \<and>
              (set_raises e \<longrightarrow> reserve e w r = ((ExnBody WriteError, 500, headers), w)) \<and>
              (\<not> set_raises e \<longrightarrow>
                 reservations (snd (reserve e w r)) =
                   filter (\<lambda>x. doc_id x \<noteq> auto_id e) (reservations w) @
                   [\<lparr>doc_id = auto_id e,
                     doc_fields =
                       [''zone'' \<mapsto> dict_get d ''zone'', ''spot'' \<mapsto> PStr first,
                        ''date'' \<mapsto> dict_get d ''date'', ''email'' \<mapsto> dict_get d ''email'',
                        ''created_at'' \<mapsto> PStr (now_iso e),
                        ''status'' \<mapsto> PStr ''confirmed'']\<rparr>] \<and>
                 (publish_raises e \<longrightarrow>
                    fst (reserve e w r) = (ExnBody PublishError, 500, headers)) \<and>
                 (\<not> publish_raises e \<longrightarrow>
                    fst (reserve e w r) = (SuccessBody (PStr first) (auto_id e), 200, headers))))"
proof -
  note eq = reserve_valid [OF assms(1-5), of e w]
  show ?thesis
  proof (intro conjI impI allI)
    assume "get_available_spots e w (dict_get d ''zone'') (dict_get d ''date'') = []"
    with assms(6) show "reserve e w r =
        ((ErrorBody ''No available spots in this zone for selected date'', 400, headers), w)"
      by (simp add: eq)
  next
    fix first rest
    assume a: "get_available_spots e w (dict_get d ''zone'') (dict_get d ''date'') = first # rest"
    then show "\<exists>i\<ge>1. first = py_str (dict_get d ''zone'') @ str_nat i \<and>
                 (\<forall>j. 1 \<le> j \<and> j < i \<longrightarrow>
                    py_str (dict_get d ''zone'') @ str_nat j \<notin>
                      set (get_available_spots e w (dict_get d ''zone'') (dict_get d ''date'')))"
      by (rule first_available_lowest)
    from a assms(6) have r: "reserve e w r =
        save_and_notify e w (dict_get d ''zone'') (PStr first) (dict_get d ''date'')
          (dict_get d ''email'')"
      by (simp add: eq)
    {
      assume "set_raises e"
      then show "reserve e w r = ((ExnBody WriteError, 500, headers), w)"
        by (simp add: r save_and_notify_write_error)
    }
    {
      assume s: "\<not> set_raises e"
      then show "reservations (snd (reserve e w r)) =
          filter (\<lambda>x. doc_id x \<noteq> auto_id e) (reservations w) @
          [\<lparr>doc_id = auto_id e,
            doc_fields =
              [''zone'' \<mapsto> dict_get d ''zone'', ''spot'' \<mapsto> PStr first,
               ''date'' \<mapsto> dict_get d ''date'', ''email'' \<mapsto> dict_get d ''email'',
               ''created_at'' \<mapsto> PStr (now_iso e),
               ''status'' \<mapsto> PStr ''confirmed'']\<rparr>]"
        by (simp add: r save_and_notify_reservations doc_set_def reservation_data_def)
      {
        assume "publish_raises e"
        with s show "fst (reserve e w r) = (ExnBody PublishError, 500, headers)"
          by (simp add: r save_and_notify_publish_error)
      }
      {
        assume "\<not> publish_raises e"
        with s show "fst (reserve e w r) = (SuccessBody (PStr first) (auto_id e), 200, headers)"
          by (simp add: r save_and_notify_ok)
      }
    }
  qed
qed

text \<open>
  Instances on the empty store. Nothing raising: A1 is returned and the store holds the
  reservation of A1. The query raising: the available list is empty and the answer is the
  no-spots error.
\<close>

theorem C2_auto_assign_witness:
  "req_method post_request = ''POST'' \<and>
   fst (reserve example_env empty_world post_request) =
     (SuccessBody (PStr ''A1'') ''k3Xw9pQz'', 200, headers) \<and>
   reservations (snd (reserve example_env empty_world post_request)) =
     [\<lparr>doc_id = ''k3Xw9pQz'',
       doc_fields = [''zone'' \<mapsto> PStr ''A'', ''spot'' \<mapsto> PStr ''A1'',
                     ''date'' \<mapsto> PStr ''2024-06-01'', ''email'' \<mapsto> PStr ''u@example.com'',
                     ''created_at'' \<mapsto> PStr ''2024-05-30T10:00:00'',
                     ''status'' \<mapsto> PStr ''confirmed'']\<rparr>] \<and>
   reserve (example_env\<lparr>query_raises := True\<rparr>) empty_world post_request =
     ((ErrorBody ''No available spots in this zone for selected date'', 400, headers), empty_world)"
proof -
  let ?d = "[''zone'' \<mapsto> PStr ''A'', ''date'' \<mapsto> PStr ''2024-06-01'',
             ''email'' \<mapsto> PStr ''u@example.com'']"
  have h: "req_method post_request = ''POST''" "req_json post_request = Some ?d"
    "dict_get ?d ''zone'' \<in> {PStr ''A'', PStr ''B'', PStr ''C''}"
    "truthy (dict_get ?d ''date'')" "truthy (dict_get ?d ''email'')"
    "\<not> truthy (dict_get ?d ''spot'')"
    by (simp_all add: post_request_def dict_get_def)
  have z: "dict_get ?d ''zone'' = PStr ''A''" "dict_get ?d ''date'' = PStr ''2024-06-01''"
    "dict_get ?d ''email'' = PStr ''u@example.com''"
    by (simp_all add: dict_get_def)
  have e: "\<not> query_raises example_env" "\<not> set_raises example_env"
    "\<not> publish_raises example_env" "auto_id example_env = ''k3Xw9pQz''"
    "now_iso example_env = ''2024-05-30T10:00:00''"
    by (simp_all add: example_env_def)
  have a1: "get_available_spots example_env empty_world (dict_get ?d ''zone'') (dict_get ?d ''date'')
      = ''A1'' # tl (all_spots (PStr ''A'') 55)"
    by (simp add: z available_empty_world [OF e(1)] A_spots)
  have a2: "get_available_spots (example_env\<lparr>query_raises := True\<rparr>) empty_world
      (dict_get ?d ''zone'') (dict_get ?d ''date'') = []"
    by (simp add: available_query_raises)
  note c1 = C2_auto_assign [OF h, of example_env empty_world]
  note c2 = C2_auto_assign [OF h, of "example_env\<lparr>query_raises := True\<rparr>" empty_world]
  note w = c1 [THEN conjunct2, rule_format, OF a1, THEN conjunct2, THEN conjunct2, THEN mp, OF e(2)]
  from w [THEN conjunct2, THEN conjunct2, THEN mp, OF e(3)]
  have "fst (reserve example_env empty_world post_request) =
     (SuccessBody (PStr ''A1'') ''k3Xw9pQz'', 200, headers)"
    by (simp only: e(4))
  moreover from w [THEN conjunct1]
  have "reservations (snd (reserve example_env empty_world post_request)) =
     [\<lparr>doc_id = ''k3Xw9pQz'',
       doc_fields = [''zone'' \<mapsto> PStr ''A'', ''spot'' \<mapsto> PStr ''A1'',
                     ''date'' \<mapsto> PStr ''2024-06-01'', ''email'' \<mapsto> PStr ''u@example.com'',
                     ''created_at'' \<mapsto> PStr ''2024-05-30T10:00:00'',
                     ''status'' \<mapsto> PStr ''confirmed'']\<rparr>]"
    by (simp add: z e(4,5) empty_world_def)
  moreover from c2 [THEN conjunct1, THEN mp, OF a2]
  have "reserve (example_env\<lparr>query_raises := True\<rparr>) empty_world post_request =
     ((ErrorBody ''No available spots in this zone for selected date'', 400, headers), empty_world)" .
  ultimately show ?thesis using h(1) by (intro conjI)
qed

text \<open>
  C2 as stated fails: on the empty store the available list of zone A starts with A1, yet,
  the write raising, the handler answers 500 and writes nothing, and, the publish raising,
  it answers 500 and returns no spot.
\<close>

theorem C2_counterexample:
  "(\<exists>rest. get_available_spots (example_env\<lparr>set_raises := True\<rparr>) empty_world
             (PStr ''A'') (PStr ''2024-06-01'') = ''A1'' # rest) \<and>
   reserve (example_env\<lparr>set_raises := True\<rparr>) empty_world post_request =
     ((ExnBody WriteError, 500, headers), empty_world) \<and>
   (\<exists>rest. get_available_spots (example_env\<lparr>publish_raises := True\<rparr>) empty_world
             (PStr ''A'') (PStr ''2024-06-01'') = ''A1'' # rest) \<and>
   fst (reserve (example_env\<lparr>publish_raises := True\<rparr>) empty_world post_request) =
     (ExnBody PublishError, 500, headers)"
proof -
  let ?d = "[''zone'' \<mapsto> PStr ''A'', ''date'' \<mapsto> PStr ''2024-06-01'',
             ''email'' \<mapsto> PStr ''u@example.com'']"
  let ?e1 = "example_env\<lparr>set_raises := True\<rparr>"
  let ?e2 = "example_env\<lparr>publish_raises := True\<rparr>"
  have h: "req_method post_request = ''POST''" "req_json post_request = Some ?d"
    "dict_get ?d ''zone'' \<in> {PStr ''A'', PStr ''B'', PStr ''C''}"
    "truthy (dict_get ?d ''date'')" "truthy (dict_get ?d ''email'')"
    by (simp_all add: post_request_def dict_get_def)
  have e1: "\<not> query_raises ?e1" "set_raises ?e1"
    by (simp_all add: example_env_def)
  have e2: "\<not> query_raises ?e2" "\<not> set_raises ?e2" "publish_raises ?e2"
    by (simp_all add: example_env_def)
  have a1: "get_available_spots ?e1 empty_world (PStr ''A'') (PStr ''2024-06-01'') =
      ''A1'' # tl (all_spots (PStr ''A'') 55)"
    by (simp add: available_empty_world [OF e1(1)] A_spots)
  have a2: "get_available_spots ?e2 empty_world (PStr ''A'') (PStr ''2024-06-01'') =
      ''A1'' # tl (all_spots (PStr ''A'') 55)"
    by (simp add: available_empty_world [OF e2(1)] A_spots)
  have "reserve ?e1 empty_world post_request =
      save_and_notify ?e1 empty_world (PStr ''A'') (PStr ''A1'') (PStr ''2024-06-01'')
        (PStr ''u@example.com'')"
    unfolding reserve_valid [OF h] by (simp add: dict_get_def a1)
  then have r1: "reserve ?e1 empty_world post_request =
      ((ExnBody WriteError, 500, headers), empty_world)"
    by (simp only: save_and_notify_write_error [OF e1(2)])
  have "reserve ?e2 empty_world post_request =
      save_and_notify ?e2 empty_world (PStr ''A'') (PStr ''A1'') (PStr ''2024-06-01'')
        (PStr ''u@example.com'')"
    unfolding reserve_valid [OF h] by (simp add: dict_get_def a2)
  then have r2: "fst (reserve ?e2 empty_world post_request) = (ExnBody PublishError, 500, headers)"
    by (simp add: save_and_notify_publish_error [OF e2(2,3)])
  from a1 a2 r1 r2 show ?thesis by blast
qed

subsection \<open>C3: a requested spot that is not available\<close>

text \<open>
  C3. For a POST request with valid zone, date and email and a requested spot that is not in
  the available list, the handler answers 400 with the spot-unavailable error, and the
  world is unchanged: no document is written and no message is published.
\<close>

theorem C3_spot_unavailable:
  assumes "req_method r = ''POST''" and "req_json r = Some d"
    and "dict_get d ''zone'' \<in> {PStr ''A'', PStr ''B'', PStr ''C''}"
    and "truthy (dict_get d ''date'')" and "truthy (dict_get d ''email'')"
    and "truthy (dict_get d ''spot'')"
    and "dict_get d ''spot'' \<notin>
           PStr ` set (get_available_spots e w (dict_get d ''zone'') (dict_get d ''date''))"
  shows "reserve e w r =
           ((ErrorBody ''Selected spot is no longer available'', 400, headers), w)"
  using assms(6,7) by (simp add: reserve_valid [OF assms(1-5)])

text \<open>
  An instance: A1 is requested while a reservation holds it.
\<close>

theorem C3_spot_unavailable_witness:
  "truthy (PStr ''A1'') \<and>
   PStr ''A1'' \<notin>
     PStr ` set (get_available_spots example_env booked_world (PStr ''A'') (PStr ''2024-06-01'')) \<and>
   reserve example_env booked_world post_request_A1 =
     ((ErrorBody ''Selected spot is no longer available'', 400, headers), booked_world)"
proof -
  let ?d = "[''zone'' \<mapsto> PStr ''A'', ''date'' \<mapsto> PStr ''2024-06-01'',
             ''email'' \<mapsto> PStr ''u@example.com'', ''spot'' \<mapsto> PStr ''A1'']"
  have h: "req_method post_request_A1 = ''POST''" "req_json post_request_A1 = Some ?d"
    "dict_get ?d ''zone'' \<in> {PStr ''A'', PStr ''B'', PStr ''C''}"
    "truthy (dict_get ?d ''date'')" "truthy (dict_get ?d ''email'')"
    "truthy (dict_get ?d ''spot'')"
    by (simp_all add: post_request_A1_def dict_get_def)
  have e: "\<not> query_raises example_env" by (simp add: example_env_def)
  have n: "PStr ''A1'' \<notin>
     PStr ` set (get_available_spots example_env booked_world (PStr ''A'') (PStr ''2024-06-01''))"
    using A1_not_available_booked [OF e] by auto
  then have n': "dict_get ?d ''spot'' \<notin>
     PStr ` set (get_available_spots example_env booked_world (dict_get ?d ''zone'') (dict_get ?d ''date''))"
    by (simp add: dict_get_def)
  from C3_spot_unavailable [OF h n'] n show ?thesis by simp
qed

subsection \<open>C4: failure of the notification publish\<close>

text \<open>
  C4, as the code has it. Once the reservation document is written, a failing publish leaves
  the document in the store as written and publishes nothing, and the exception reaches the
  handler's \<open>except\<close>: the caller receives status 500 with the error, not the success
  response.
\<close>

theorem C4_enqueue_failure:
  assumes "req_method r = ''POST''" and "req_json r = Some d"
    and "dict_get d ''zone'' \<in> {PStr ''A'', PStr ''B'', PStr ''C''}"
    and "truthy (dict_get d ''date'')" and "truthy (dict_get d ''email'')"
    and "if truthy (dict_get d ''spot'')
         then dict_get d ''spot'' \<in>
                PStr ` set (get_available_spots e w (dict_get d ''zone'') (dict_get d ''date'')) \<and>
              spot = dict_get d ''spot''
         else get_available_spots e w (dict_get d ''zone'') (dict_get d ''date'') \<noteq> [] \<and>
              spot = PStr (hd (get_available_spots e w (dict_get d ''zone'') (dict_get d ''date'')))"
    and "\<not> set_raises e" and "publish_raises e"
  shows "reserve e w r =
           ((ExnBody PublishError, 500, headers),
            w\<lparr>reservations :=
                doc_set (reservations w) (auto_id e)
                  (reservation_data e (dict_get d ''zone'') spot
                     (dict_get d ''date'') (dict_get d ''email''))\<rparr>)"
proof (cases "truthy (dict_get d ''spot'')")
  case True
  with assms(6-8) show ?thesis
    by (simp add: reserve_valid [OF assms(1-5)] save_and_notify_publish_error)
next
  case False
  with assms(6) obtain first rest where
    "get_available_spots e w (dict_get d ''zone'') (dict_get d ''date'') = first # rest"
    and "spot = PStr first"
    by (cases "get_available_spots e w (dict_get d ''zone'') (dict_get d ''date'')") auto
  with False assms(7,8) show ?thesis
    by (simp add: reserve_valid [OF assms(1-5)] save_and_notify_publish_error)
qed

text \<open>
  An instance: the empty store, no spot requested, the publish raising.
\<close>

theorem C4_enqueue_failure_witness:
  "\<not> set_raises (example_env\<lparr>publish_raises := True\<rparr>) \<and>
   publish_raises (example_env\<lparr>publish_raises := True\<rparr>) \<and>
   reserve (example_env\<lparr>publish_raises := True\<rparr>) empty_world post_request =
     ((ExnBody PublishError, 500, headers),
      empty_world\<lparr>reservations :=
         doc_set (reservations empty_world) ''k3Xw9pQz''
           (reservation_data (example_env\<lparr>publish_raises := True\<rparr>) (PStr ''A'') (PStr ''A1'')
              (PStr ''2024-06-01'') (PStr ''u@example.com''))\<rparr>)"
proof -
  let ?d = "[''zone'' \<mapsto> PStr ''A'', ''date'' \<mapsto> PStr ''2024-06-01'',
             ''email'' \<mapsto> PStr ''u@example.com'']"
  let ?e = "example_env\<lparr>publish_raises := True\<rparr>"
  have h: "req_method post_request = ''POST''" "req_json post_request = Some ?d"
    "dict_get ?d ''zone'' \<in> {PStr ''A'', PStr ''B'', PStr ''C''}"
    "truthy (dict_get ?d ''date'')" "truthy (dict_get ?d ''email'')"
    by (simp_all add: post_request_def dict_get_def)
  have e: "\<not> query_raises ?e" "\<not> set_raises ?e" "publish_raises ?e"
    by (simp_all add: example_env_def)
  have a: "get_available_spots ?e empty_world (PStr ''A'') (PStr ''2024-06-01'') =
      ''A1'' # tl (all_spots (PStr ''A'') 55)"
    by (simp add: available_empty_world [OF e(1)] A_spots)
  have c: "if truthy (dict_get ?d ''spot'')
         then dict_get ?d ''spot'' \<in>
                PStr ` set (get_available_spots ?e empty_world (dict_get ?d ''zone'') (dict_get ?d ''date'')) \<and>
              PStr ''A1'' = dict_get ?d ''spot''
         else get_available_spots ?e empty_world (dict_get ?d ''zone'') (dict_get ?d ''date'') \<noteq> [] \<and>
              PStr ''A1'' = PStr (hd (get_available_spots ?e empty_world (dict_get ?d ''zone'') (dict_get ?d ''date'')))"
    by (simp add: dict_get_def a)
  from C4_enqueue_failure [OF h c e(2,3)] e(2,3) show ?thesis
    by (simp add: dict_get_def example_env_def)
qed

text \<open>
  C4 as stated fails: the publish raising, the reservation of A1 is stored and the response
  is the 500 error, not the success response.
\<close>

theorem C4_counterexample:
  "reservations (snd (reserve (example_env\<lparr>publish_raises := True\<rparr>) empty_world post_request)) =
     [\<lparr>doc_id = ''k3Xw9pQz'',
       doc_fields = [''zone'' \<mapsto> PStr ''A'', ''spot'' \<mapsto> PStr ''A1'',
                     ''date'' \<mapsto> PStr ''2024-06-01'', ''email'' \<mapsto> PStr ''u@example.com'',
                     ''created_at'' \<mapsto> PStr ''2024-05-30T10:00:00'',
                     ''status'' \<mapsto> PStr ''confirmed'']\<rparr>] \<and>
   fst (reserve (example_env\<lparr>publish_raises := True\<rparr>) empty_world post_request) =
     (ExnBody PublishError, 500, headers)"
proof -
  let ?d = "[''zone'' \<mapsto> PStr ''A'', ''date'' \<mapsto> PStr ''2024-06-01'',
             ''email'' \<mapsto> PStr ''u@example.com'']"
  let ?e = "example_env\<lparr>publish_raises := True\<rparr>"
  have h: "req_method post_request = ''POST''" "req_json post_request = Some ?d"
    "dict_get ?d ''zone'' \<in> {PStr ''A'', PStr ''B'', PStr ''C''}"
    "truthy (dict_get ?d ''date'')" "truthy (dict_get ?d ''email'')"
    by (simp_all add: post_request_def dict_get_def)
  have e: "\<not> query_raises ?e" "\<not> set_raises ?e" "publish_raises ?e"
    by (simp_all add: example_env_def)
  have a: "get_available_spots ?e empty_world (PStr ''A'') (PStr ''2024-06-01'') =
      ''A1'' # tl (all_spots (PStr ''A'') 55)"
    by (simp add: available_empty_world [OF e(1)] A_spots)
  have "reserve ?e empty_world post_request =
      save_and_notify ?e empty_world (PStr ''A'') (PStr ''A1'') (PStr ''2024-06-01'')
        (PStr ''u@example.com'')"
    unfolding reserve_valid [OF h] by (simp add: dict_get_def a)
  then have "reserve ?e empty_world post_request =
      ((ExnBody PublishError, 500, headers),
       empty_world\<lparr>reservations :=
          doc_set (reservations empty_world) (auto_id ?e)
            (reservation_data ?e (PStr ''A'') (PStr ''A1'') (PStr ''2024-06-01'')
               (PStr ''u@example.com''))\<rparr>)"
    by (simp only: save_and_notify_publish_error [OF e(2,3)])
  then show ?thesis
    by (simp add: empty_world_def doc_set_def reservation_data_def example_env_def)
qed

subsection \<open>C5: a failing store query\<close>

text \<open>
  C5. When the store query raises, \<open>get_available_spots\<close> returns the empty list for every
  zone and date; and for the same zone and date there is a store over which the successful
  query returns the empty list as well, so the result alone does not tell the two apart.
\<close>

theorem C5_query_failure:
  assumes "query_raises e"
  shows "get_available_spots e w zone date = [] \<and>
         (\<exists>w'. get_available_spots (e\<lparr>query_raises := False\<rparr>) w' zone date = [])"
proof
  from assms show "get_available_spots e w zone date = []"
    by (rule available_query_raises)
next
  show "\<exists>w'. get_available_spots (e\<lparr>query_raises := False\<rparr>) w' zone date = []"
  proof (cases "zone_limits zone")
    case None
    then show ?thesis by (simp add: unknown_zone)
  next
    case (Some c)
    have "\<not> query_raises (e\<lparr>query_raises := False\<rparr>)" by simp
    from fully_booked [OF this Some] show ?thesis by blast
  qed
qed

text \<open>
  An instance: zone A, the query raising.
\<close>

theorem C5_query_failure_witness:
  "query_raises (example_env\<lparr>query_raises := True\<rparr>) \<and>
   get_available_spots (example_env\<lparr>query_raises := True\<rparr>) empty_world
     (PStr ''A'') (PStr ''2024-06-01'') = [] \<and>
   (\<exists>w'. get_available_spots (example_env\<lparr>query_raises := True, query_raises := False\<rparr>) w'
            (PStr ''A'') (PStr ''2024-06-01'') = [])"
proof -
  have h: "query_raises (example_env\<lparr>query_raises := True\<rparr>)" by simp
  from C5_query_failure [OF h] h show ?thesis by blast
qed

subsection \<open>C6: the order of validation\<close>

text \<open>
  C6. For a POST request with a JSON object: if one of zone, date, email is missing or empty
  the answer is 400 with the missing-fields error; otherwise, if the zone is not one of
  A, B, C, the answer is 400 with the invalid-zone error. With zone D the answer is always
  400 with one of these two errors, whatever the other fields, the environment and the
  store are. In all these cases the world is returned as it was.
\<close>

theorem C6_validation_order:
  assumes "req_method r = ''POST''" and "req_json r = Some d"
  shows "(\<not> (truthy (dict_get d ''zone'') \<and> truthy (dict_get d ''date'') \<and>
              truthy (dict_get d ''email'')) \<longrightarrow>
            reserve e w r = ((ErrorBody ''Missing required fields'', 400, headers), w)) \<and>
         (truthy (dict_get d ''zone'') \<and> truthy (dict_get d ''date'') \<and>
            truthy (dict_get d ''email'') \<and>
            dict_get d ''zone'' \<notin> {PStr ''A'', PStr ''B'', PStr ''C''} \<longrightarrow>
            reserve e w r = ((ErrorBody ''Invalid zone'', 400, headers), w)) \<and>
         (dict_get d ''zone'' = PStr ''D'' \<longrightarrow>
            fst (snd (fst (reserve e w r))) = 400 \<and> snd (reserve e w r) = w \<and>
            fst (fst (reserve e w r)) \<in>
              {ErrorBody ''Missing required fields'', ErrorBody ''Invalid zone''})"
proof (intro conjI impI)
  assume "\<not> (truthy (dict_get d ''zone'') \<and> truthy (dict_get d ''date'') \<and>
              truthy (dict_get d ''email''))"
  with assms show "reserve e w r = ((ErrorBody ''Missing required fields'', 400, headers), w)"
    by (auto simp: reserve_def reserve_post_def Let_def)
next
  assume "truthy (dict_get d ''zone'') \<and> truthy (dict_get d ''date'') \<and>
            truthy (dict_get d ''email'') \<and>
            dict_get d ''zone'' \<notin> {PStr ''A'', PStr ''B'', PStr ''C''}"
  with assms show "reserve e w r = ((ErrorBody ''Invalid zone'', 400, headers), w)"
    by (simp add: reserve_def reserve_post_def Let_def)
next
  assume z: "dict_get d ''zone'' = PStr ''D''"
  with assms show "fst (snd (fst (reserve e w r))) = 400"
    by (simp add: reserve_def reserve_post_def Let_def)
  from z assms show "snd (reserve e w r) = w"
    by (simp add: reserve_def reserve_post_def Let_def)
  from z assms show "fst (fst (reserve e w r)) \<in>
              {ErrorBody ''Missing required fields'', ErrorBody ''Invalid zone''}"
    by (simp add: reserve_def reserve_post_def Let_def)
qed

text \<open>
  Two instances with zone D: all fields present, and the email missing.
\<close>

theorem C6_validation_order_witness:
  "req_method post_request_D = ''POST'' \<and>
   reserve example_env booked_world post_request_D =
     ((ErrorBody ''Invalid zone'', 400, headers), booked_world) \<and>
   reserve example_env booked_world post_request_no_email =
     ((ErrorBody ''Missing required fields'', 400, headers), booked_world) \<and>
   fst (snd (fst (reserve example_env booked_world post_request_no_email))) = 400"
proof -
  let ?d = "[''zone'' \<mapsto> PStr ''D'', ''date'' \<mapsto> PStr ''2024-06-01'',
             ''email'' \<mapsto> PStr ''u@example.com'']"
  let ?d' = "[''zone'' \<mapsto> PStr ''D'', ''date'' \<mapsto> PStr ''2024-06-01'']"
  have h: "req_method post_request_D = ''POST''" "req_json post_request_D = Some ?d"
    by (simp_all add: post_request_D_def)
  have h': "req_method post_request_no_email = ''POST''" "req_json post_request_no_email = Some ?d'"
    by (simp_all add: post_request_no_email_def)
  have v: "truthy (dict_get ?d ''zone'') \<and> truthy (dict_get ?d ''date'') \<and>
            truthy (dict_get ?d ''email'') \<and>
            dict_get ?d ''zone'' \<notin> {PStr ''A'', PStr ''B'', PStr ''C''}"
    by (simp add: dict_get_def)
  have v': "\<not> (truthy (dict_get ?d' ''zone'') \<and> truthy (dict_get ?d' ''date'') \<and>
              truthy (dict_get ?d' ''email''))" "dict_get ?d' ''zone'' = PStr ''D''"
    by (simp_all add: dict_get_def)
  from C6_validation_order [OF h, of example_env booked_world] v
  have "reserve example_env booked_world post_request_D =
     ((ErrorBody ''Invalid zone'', 400, headers), booked_world)" by blast
  moreover from C6_validation_order [OF h', of example_env booked_world] v'
  have "reserve example_env booked_world post_request_no_email =
     ((ErrorBody ''Missing required fields'', 400, headers), booked_world)"
    "fst (snd (fst (reserve example_env booked_world post_request_no_email))) = 400"
    by blast+
  ultimately show ?thesis using h(1) by simp
qed

subsection \<open>C7: end to end on zone A\<close>

text \<open>
  C7. Zone A has capacity 55. Over a store with no reservation for zone A on 2024-06-01, with
  the query, the write and the publish succeeding and the store generating a non-empty
  document identifier: the available spots are A1 to A55 in order; a reservation request
  with no spot succeeds with spot A1 and a non-empty reservation identifier; and the same
  request on the resulting world succeeds with spot A2.
\<close>

theorem C7_end_to_end:
  assumes "\<forall>x\<in>set (reservations w).
             \<not> (doc_fields x ''zone'' = Some (PStr ''A'') \<and>
                doc_fields x ''date'' = Some (PStr ''2024-06-01''))"
    and "req_method r = ''POST''"
    and "req_json r = Some [''zone'' \<mapsto> PStr ''A'', ''date'' \<mapsto> PStr ''2024-06-01'',
                            ''email'' \<mapsto> PStr ''u@example.com'']"
    and "\<not> query_raises e1" and "\<not> set_raises e1" and "\<not> publish_raises e1"
    and "auto_id e1 \<noteq> []"
    and "\<not> query_raises e2" and "\<not> set_raises e2" and "\<not> publish_raises e2"
  shows "zone_limits (PStr ''A'') = Some 55 \<and>
         get_available_spots e1 w (PStr ''A'') (PStr ''2024-06-01'') =
           [''A1'', ''A2'', ''A3'', ''A4'', ''A5'', ''A6'', ''A7'', ''A8'', ''A9'', ''A10'',
            ''A11'', ''A12'', ''A13'', ''A14'', ''A15'', ''A16'', ''A17'', ''A18'', ''A19'', ''A20'',
            ''A21'', ''A22'', ''A23'', ''A24'', ''A25'', ''A26'', ''A27'', ''A28'', ''A29'', ''A30'',
            ''A31'', ''A32'', ''A33'', ''A34'', ''A35'', ''A36'', ''A37'', ''A38'', ''A39'', ''A40'',
            ''A41'', ''A42'', ''A43'', ''A44'', ''A45'', ''A46'', ''A47'', ''A48'', ''A49'', ''A50'',
            ''A51'', ''A52'', ''A53'', ''A54'', ''A55''] \<and>
         (\<exists>rid. rid \<noteq> [] \<and> fst (reserve e1 w r) = (SuccessBody (PStr ''A1'') rid, 200, headers)) \<and>
         fst (reserve e2 (snd (reserve e1 w r)) r) =
           (SuccessBody (PStr ''A2'') (auto_id e2), 200, headers)"
proof -
  let ?d = "[''zone'' \<mapsto> PStr ''A'', ''date'' \<mapsto> PStr ''2024-06-01'',
             ''email'' \<mapsto> PStr ''u@example.com'']"
  have d: "dict_get ?d ''zone'' = PStr ''A''" "dict_get ?d ''date'' = PStr ''2024-06-01''"
    "dict_get ?d ''email'' = PStr ''u@example.com''" "dict_get ?d ''spot'' = PNone"
    by (simp_all add: dict_get_def)
  have v: "dict_get ?d ''zone'' \<in> {PStr ''A'', PStr ''B'', PStr ''C''}"
    "truthy (dict_get ?d ''date'')" "truthy (dict_get ?d ''email'')"
    by (simp_all add: d)
  note eq = reserve_valid [OF assms(2,3) v]
  have a1: "get_available_spots e1 w (PStr ''A'') (PStr ''2024-06-01'') = all_spots (PStr ''A'') 55"
    by (rule A_first_call [OF assms(1,4)])
  have r1: "reserve e1 w r =
      save_and_notify e1 w (PStr ''A'') (PStr ''A1'') (PStr ''2024-06-01'') (PStr ''u@example.com'')"
    by (simp add: eq d a1 A_spots)
  have f1: "fst (reserve e1 w r) = (SuccessBody (PStr ''A1'') (auto_id e1), 200, headers)"
    by (simp add: r1 save_and_notify_ok [OF assms(5,6)])
  define w1 where "w1 = snd (reserve e1 w r)"
  have w1: "reservations w1 =
      doc_set (reservations w) (auto_id e1)
        (reservation_data e1 (PStr ''A'') (PStr ''A1'') (PStr ''2024-06-01'') (PStr ''u@example.com''))"
    unfolding w1_def by (simp add: r1 save_and_notify_reservations [OF assms(5)])
  have a2: "get_available_spots e2 w1 (PStr ''A'') (PStr ''2024-06-01'') =
      tl (all_spots (PStr ''A'') 55)"
    by (rule A_second_call [OF assms(1,8) w1])
  have r2: "reserve e2 w1 r =
      save_and_notify e2 w1 (PStr ''A'') (PStr ''A2'') (PStr ''2024-06-01'')
        (PStr ''u@example.com'')"
    by (simp add: eq d a2 A_spots)
  have "fst (reserve e2 w1 r) = (SuccessBody (PStr ''A2'') (auto_id e2), 200, headers)"
    by (simp add: r2 save_and_notify_ok [OF assms(9,10)])
  then have f2: "fst (reserve e2 (snd (reserve e1 w r)) r) =
      (SuccessBody (PStr ''A2'') (auto_id e2), 200, headers)"
    by (simp only: w1_def)
  from f1 assms(7)
  have "\<exists>rid. rid \<noteq> [] \<and> fst (reserve e1 w r) = (SuccessBody (PStr ''A1'') rid, 200, headers)"
    by blast
  with zone_limits_A a1 f2 show ?thesis
    by (simp add: A_spots)
qed

text \<open>
  An instance: two calls starting from the empty store.
\<close>

theorem C7_end_to_end_witness:
  "(\<exists>rid. rid \<noteq> [] \<and>
      fst (reserve example_env empty_world post_request) =
        (SuccessBody (PStr ''A1'') rid, 200, headers)) \<and>
   fst (reserve (example_env\<lparr>auto_id := ''Zq81mK0a''\<rparr>)
          (snd (reserve example_env empty_world post_request)) post_request) =
     (SuccessBody (PStr ''A2'') ''Zq81mK0a'', 200, headers)"
proof -
  let ?e2 = "example_env\<lparr>auto_id := ''Zq81mK0a''\<rparr>"
  have h: "\<forall>x\<in>set (reservations empty_world).
             \<not> (doc_fields x ''zone'' = Some (PStr ''A'') \<and>
                doc_fields x ''date'' = Some (PStr ''2024-06-01''))"
    "req_method post_request = ''POST''"
    "req_json post_request = Some [''zone'' \<mapsto> PStr ''A'', ''date'' \<mapsto> PStr ''2024-06-01'',
                            ''email'' \<mapsto> PStr ''u@example.com'']"
    "\<not> query_raises example_env" "\<not> set_raises example_env" "\<not> publish_raises example_env"
    "auto_id example_env \<noteq> []"
    "\<not> query_raises ?e2" "\<not> set_raises ?e2" "\<not> publish_raises ?e2"
    by (simp_all add: empty_world_def post_request_def example_env_def)
  have "auto_id ?e2 = ''Zq81mK0a''" by simp
  with C7_end_to_end [OF h] show ?thesis by simp
qed

subsection \<open>C8: the credential\<close>




subsection \<open>C9: the queue message\<close>

text \<open>
  C9. A successful \<open>publish_email\<close> appends to the topic one JSON object whose keys are
  exactly \<open>to\<close>, \<open>subject\<close> and \<open>message\<close>, and the dispatcher's extraction returns
  from it the three values that were published. For every object with exactly these keys
  the extraction succeeds, and \<open>send_email\<close> proceeds to the credential download.
\<close>

theorem C9_message_contract:
  assumes "\<not> publish_raises e"
  shows "(\<exists>data. topic (snd (publish_email e w to subject message)) = topic w @ [data] \<and>
            dom data = {''to'', ''subject'', ''message''} \<and>
            extract_fields data = Inr (to, subject, message)) \<and>
         (\<forall>data. dom data = {''to'', ''subject'', ''message''} \<longrightarrow>
            (\<exists>t s b. extract_fields data = Inr (t, s, b)) \<and>
            (\<forall>m. \<exists>rest. fst (send_email m (Message data)) = Download # rest))"
proof (intro conjI allI impI)
  let ?data = "[''to'' \<mapsto> to, ''subject'' \<mapsto> subject, ''message'' \<mapsto> message]"
  from assms have "topic (snd (publish_email e w to subject message)) = topic w @ [?data]"
    by (simp add: publish_email_def)
  moreover have "dom ?data = {''to'', ''subject'', ''message''}"
    by auto
  moreover have "extract_fields ?data = Inr (to, subject, message)"
    by (simp add: extract_fields_def subscript_def)
  ultimately show "\<exists>data. topic (snd (publish_email e w to subject message)) = topic w @ [data] \<and>
            dom data = {''to'', ''subject'', ''message''} \<and>
            extract_fields data = Inr (to, subject, message)"
    by blast
next
  fix data :: "string \<rightharpoonup> pyval"
  assume "dom data = {''to'', ''subject'', ''message''}"
  then show x: "\<exists>t s b. extract_fields data = Inr (t, s, b)"
    by (rule extract_fields_shape)
  fix m
  from x show "\<exists>rest. fst (send_email m (Message data)) = Download # rest"
    by (auto intro: send_email_reaches_download)
qed

text \<open>
  An instance: one publish on the empty world, and the example message.
\<close>

theorem C9_message_contract_witness:
  "\<not> publish_raises example_env \<and>
   (\<exists>data. topic (snd (publish_email example_env empty_world (PStr ''u@example.com'')
                         (PStr ''Parking Reservation Confirmation'') (PStr ''Dear Customer''))) =
              topic empty_world @ [data] \<and>
            dom data = {''to'', ''subject'', ''message''} \<and>
            extract_fields data =
              Inr (PStr ''u@example.com'', PStr ''Parking Reservation Confirmation'',
                   PStr ''Dear Customer'')) \<and>
   dom example_message = {''to'', ''subject'', ''message''} \<and>
   (\<exists>t s b. extract_fields example_message = Inr (t, s, b)) \<and>
   (\<exists>rest. fst (send_email (example_mail_env expired_creds) (Message example_message)) =
      Download # rest)"
proof -
  have h: "\<not> publish_raises example_env" by (simp add: example_env_def)
  have d: "dom example_message = {''to'', ''subject'', ''message''}"
    by (auto simp: example_message_def)
  note c = C9_message_contract [OF h, of empty_world "PStr ''u@example.com''"
      "PStr ''Parking Reservation Confirmation''" "PStr ''Dear Customer''"]
  note s = c [THEN conjunct2, rule_format, OF d]
  from c [THEN conjunct1] s [THEN conjunct1]
    s [THEN conjunct2, THEN spec, of "example_mail_env expired_creds"] h d
  show ?thesis by (intro conjI)
qed

subsection \<open>C10: the available spots of an unknown zone\<close>

text \<open>
  C10. A GET request to the available-spots path with a non-empty date and a non-empty zone
  that is not A, B or C is answered with status 200 and an empty list of available spots,
  whatever the environment and the store are; the world is unchanged.
\<close>

theorem C10_get_unknown_zone:
  assumes "req_method r = ''GET''" and "endswith (req_path r) ''/available-spots''"
    and "req_args r ''zone'' = Some zone" and "req_args r ''date'' = Some date"
    and "zone \<noteq> []" and "date \<noteq> []" and "zone \<notin> {''A'', ''B'', ''C''}"
  shows "reserve e w r = ((SpotsBody [] zone date, 200, headers), w)"
proof -
  from assms(7) have "zone_limits (PStr zone) = None"
    by (simp add: zone_limits_def)
  then have "get_available_spots e w (PStr zone) (PStr date) = []"
    by (rule unknown_zone)
  with assms(1-6) show ?thesis
    by (simp add: reserve_def)
qed

text \<open>
  An instance: zone D.
\<close>

theorem C10_get_unknown_zone_witness:
  "endswith (req_path get_request) ''/available-spots'' \<and>
   ''D'' \<notin> {''A'', ''B'', ''C''} \<and>
   reserve example_env booked_world get_request =
     ((SpotsBody [] ''D'' ''2024-06-01'', 200, headers), booked_world)"
proof -
  have h: "req_method get_request = ''GET''" "endswith (req_path get_request) ''/available-spots''"
    "req_args get_request ''zone'' = Some ''D''" "req_args get_request ''date'' = Some ''2024-06-01''"
    "''D'' \<noteq> []" "''2024-06-01'' \<noteq> []" "''D'' \<notin> {''A'', ''B'', ''C''}"
    by (simp_all add: get_request_def endswith_def)
  from C10_get_unknown_zone [OF h] h(2,7) show ?thesis by blast
qed

end
